theory Spec2Isabelle
  imports Main
begin

section \<open>The values the builder engine works on\<close>

text \<open>
  The engine of \<^verbatim>\<open>agChart.ts\<close> is written against \<^verbatim>\<open>any\<close>: configuration nodes,
  registry nodes and component instances are all plain JavaScript values, read and
  written by property name. The embedding therefore has one type of values.

  \<^item> \<open>Obj ps p\<close> is an object with the own enumerable properties \<open>ps\<close> (in the order
    \<^verbatim>\<open>for ... in\<close> enumerates them, each name once) and the prototype \<open>p\<close>. An object
    literal has the prototype \<open>ObjProto\<close> (JavaScript's \<^verbatim>\<open>Object.prototype\<close>);
    \<^verbatim>\<open>Object.create(o)\<close> is \<open>Obj [] o\<close>.
  \<^item> \<open>Inst c args fs\<close> is an instance of the component class \<open>c\<close>, built by
    \<^verbatim>\<open>new c(...args)\<close>, with the fields \<open>fs\<close>. The component classes are not part of
    the source file: their instances are data holders whose fields are read and assigned
    by name.
  \<^item> \<open>Ctor c\<close> is the constructor function of the class \<open>c\<close>.

  Objects are values here, not references. A function of the source that assigns into an
  object it was given returns that object, updated; an assignment into a nested object is
  put back into the object that holds it (\<open>put_held\<close>). This is the behaviour of the
  source as long as no object is reachable along two paths of a configuration or instance.

  Numbers are integers. Of the members that the built-in prototypes define, only
  \<^verbatim>\<open>constructor\<close>, \<^verbatim>\<open>length\<close> and the indices of arrays and strings are modelled;
  the other built-in member names (\<^verbatim>\<open>toString\<close>, \<^verbatim>\<open>hasOwnProperty\<close>, ...) are taken not to
  occur as configuration keys or type tags.
\<close>

datatype ctor =
    CartesianChart | NumberAxis | CategoryAxis
  | LineSeries | ColumnSeries | BarSeries | ScatterSeries | AreaSeries
  | PolarChart | PieSeries | Caption | Legend | Padding
  | ObjectC | ArrayC | StringC | HTMLBodyElement

datatype jsval =
    Undefined
  | Null
  | Bool bool
  | Num int
  | Str string
  | Arr "jsval list"
  | Obj "(string \<times> jsval) list" jsval
  | ObjProto
  | Inst ctor "jsval list" "(string \<times> jsval) list"
  | Ctor ctor

type_synonym props = "(string \<times> jsval) list"

text \<open>
  \<open>TypeError\<close> is the exception of the JavaScript runtime (reading a property of
  \<^verbatim>\<open>undefined\<close>, assigning to a primitive in strict mode, \<^verbatim>\<open>in\<close> on a primitive, calling
  what is not a function). \<open>Unmodelled\<close> marks the few operations on values of the type
  above whose result lies outside it (the text of a function, a named property stored on
  an array): the embedding says nothing about the source there.
\<close>

datatype error = TypeError | Unmodelled

definition bind :: "error + 'a \<Rightarrow> ('a \<Rightarrow> error + 'b) \<Rightarrow> error + 'b" where
  "bind m f = (case m of Inl e \<Rightarrow> Inl e | Inr x \<Rightarrow> f x)"

text \<open>An object literal.\<close>

abbreviation obj :: "props \<Rightarrow> jsval" where
  "obj ps \<equiv> Obj ps ObjProto"

text \<open>\<^verbatim>\<open>!!v\<close>.\<close>

fun truthy :: "jsval \<Rightarrow> bool" where
  "truthy Undefined = False"
| "truthy Null = False"
| "truthy (Bool b) = b"
| "truthy (Num n) = (n \<noteq> 0)"
| "truthy (Str s) = (s \<noteq> [])"
| "truthy _ = True"

text \<open>\<^verbatim>\<open>v && typeof v === 'object'\<close>: a function has the type \<^verbatim>\<open>'function'\<close>.\<close>

fun is_object :: "jsval \<Rightarrow> bool" where
  "is_object (Arr xs) = True"
| "is_object (Obj ps p) = True"
| "is_object ObjProto = True"
| "is_object (Inst c args fs) = True"
| "is_object _ = False"

subsection \<open>Array indices as property names\<close>

definition digits :: string where
  "digits = ''0123456789''"

fun digit_value :: "char \<Rightarrow> string \<Rightarrow> nat option" where
  "digit_value c [] = None"
| "digit_value c (d # ds) =
     (if c = d then Some 0 else map_option Suc (digit_value c ds))"

fun decimal_value :: "nat \<Rightarrow> string \<Rightarrow> nat option" where
  "decimal_value acc [] = Some acc"
| "decimal_value acc (c # cs) =
     (case digit_value c digits of
        None \<Rightarrow> None
      | Some d \<Rightarrow> decimal_value (10 * acc + d) cs)"

text \<open>A property name is an array index when it is the canonical decimal numeral of one.\<close>

definition array_index :: "string \<Rightarrow> nat option" where
  "array_index k =
     (case k of
        [] \<Rightarrow> None
      | c # cs \<Rightarrow> if c = CHR ''0'' \<and> cs \<noteq> [] then None else decimal_value 0 k)"

function show_nat :: "nat \<Rightarrow> string" where
  "show_nat n =
     (if n < 10 then [digits ! n] else show_nat (n div 10) @ [digits ! (n mod 10)])"
  by pat_completeness auto
termination
  by (relation "measure id") auto

definition show_int :: "int \<Rightarrow> string" where
  "show_int i = (if i < 0 then CHR ''-'' # show_nat (nat (- i)) else show_nat (nat i))"

definition index_keys :: "nat \<Rightarrow> string list" where
  "index_keys n = map show_nat [0..<n]"

subsection \<open>Reading, testing, writing and enumerating properties\<close>

fun set_own :: "string \<Rightarrow> jsval \<Rightarrow> props \<Rightarrow> props" where
  "set_own k v [] = [(k, v)]"
| "set_own k v (p # ps) = (if fst p = k then (k, v) # ps else p # set_own k v ps)"

definition has_own :: "props \<Rightarrow> string \<Rightarrow> bool" where
  "has_own ps k = (map_of ps k \<noteq> None)"

text \<open>\<^verbatim>\<open>v[k]\<close>.\<close>

fun getprop :: "jsval \<Rightarrow> string \<Rightarrow> error + jsval" where
  "getprop Undefined k = Inl TypeError"
| "getprop Null k = Inl TypeError"
| "getprop (Bool b) k = (if k = ''constructor'' then Inl Unmodelled else Inr Undefined)"
| "getprop (Num n) k = (if k = ''constructor'' then Inl Unmodelled else Inr Undefined)"
| "getprop (Str s) k =
     (case array_index k of
        Some i \<Rightarrow> Inr (if i < length s then Str [s ! i] else Undefined)
      | None \<Rightarrow>
          if k = ''length'' then Inr (Num (int (length s)))
          else if k = ''constructor'' then Inr (Ctor StringC)
          else Inr Undefined)"
| "getprop (Arr xs) k =
     (case array_index k of
        Some i \<Rightarrow> Inr (if i < length xs then xs ! i else Undefined)
      | None \<Rightarrow>
          if k = ''length'' then Inr (Num (int (length xs)))
          else if k = ''constructor'' then Inr (Ctor ArrayC)
          else Inr Undefined)"
| "getprop (Obj ps p) k =
     (case map_of ps k of
        Some v \<Rightarrow> Inr v
      | None \<Rightarrow> if p = Null then Inr Undefined else getprop p k)"
| "getprop ObjProto k = (if k = ''constructor'' then Inr (Ctor ObjectC) else Inr Undefined)"
| "getprop (Inst c args fs) k =
     (case map_of fs k of
        Some v \<Rightarrow> Inr v
      | None \<Rightarrow> if k = ''constructor'' then Inr (Ctor c) else Inr Undefined)"
| "getprop (Ctor c) k = Inl Unmodelled"

text \<open>\<^verbatim>\<open>k in v\<close>: a \<^verbatim>\<open>TypeError\<close> when \<open>v\<close> is not an object.\<close>

fun has_property :: "jsval \<Rightarrow> string \<Rightarrow> error + bool" where
  "has_property (Arr xs) k =
     (case array_index k of
        Some i \<Rightarrow> Inr (i < length xs)
      | None \<Rightarrow> Inr (k = ''length'' \<or> k = ''constructor''))"
| "has_property (Obj ps p) k =
     (if has_own ps k then Inr True
      else if p = Null then Inr False
      else has_property p k)"
| "has_property ObjProto k = Inr (k = ''constructor'')"
| "has_property (Inst c args fs) k = Inr (has_own fs k \<or> k = ''constructor'')"
| "has_property (Ctor c) k = Inl Unmodelled"
| "has_property _ k = Inl TypeError"

text \<open>
  \<^verbatim>\<open>v[k] = x\<close>, in strict mode (the source is a module): the result is \<open>v\<close> after the
  assignment. The objects of the model have data properties only, so the assignment
  creates or overwrites an own property.
\<close>

fun setprop :: "jsval \<Rightarrow> string \<Rightarrow> jsval \<Rightarrow> error + jsval" where
  "setprop (Obj ps p) k x = Inr (Obj (set_own k x ps) p)"
| "setprop (Inst c args fs) k x = Inr (Inst c args (set_own k x fs))"
| "setprop (Arr xs) k x = Inl Unmodelled"
| "setprop ObjProto k x = Inl Unmodelled"
| "setprop (Ctor c) k x = Inl Unmodelled"
| "setprop _ k x = Inl TypeError"

text \<open>The names \<^verbatim>\<open>for (const key in v)\<close> runs through: own ones first, then inherited ones.\<close>

fun keys_in :: "jsval \<Rightarrow> string list" where
  "keys_in (Str s) = index_keys (length s)"
| "keys_in (Arr xs) = index_keys (length xs)"
| "keys_in (Obj ps p) = map fst ps @ filter (\<lambda>k. \<not> has_own ps k) (keys_in p)"
| "keys_in (Inst c args fs) = map fst fs"
| "keys_in _ = []"

text \<open>
  The bookkeeping of the value model: \<open>put_held v k x\<close> is \<open>v\<close> once the object it holds
  under \<open>k\<close> (own or inherited) has become \<open>x\<close> by assignments made into it.
\<close>

fun put_held :: "jsval \<Rightarrow> string \<Rightarrow> jsval \<Rightarrow> jsval" where
  "put_held (Obj ps p) k x =
     (if has_own ps k then Obj (set_own k x ps) p else Obj ps (put_held p k x))"
| "put_held (Inst c args fs) k x =
     (if has_own fs k then Inst c args (set_own k x fs) else Inst c args fs)"
| "put_held (Arr xs) k x =
     (case array_index k of
        Some i \<Rightarrow> if i < length xs then Arr (xs[i := x]) else Arr xs
      | None \<Rightarrow> Arr xs)"
| "put_held v k x = v"

text \<open>The string a truthy primitive contributes to \<^verbatim>\<open>path + '.' + v\<close>.\<close>

fun to_string :: "jsval \<Rightarrow> error + string" where
  "to_string (Str s) = Inr s"
| "to_string (Num n) = Inr (show_int n)"
| "to_string (Bool b) = Inr (if b then ''true'' else ''false'')"
| "to_string Undefined = Inr ''undefined''"
| "to_string Null = Inr ''null''"
| "to_string _ = Inl Unmodelled"

text \<open>\<^verbatim>\<open>s.split('.')\<close>.\<close>

fun split_dot :: "string \<Rightarrow> string list" where
  "split_dot [] = [[]]"
| "split_dot (c # cs) =
     (if c = CHR ''.'' then [] # split_dot cs
      else (case split_dot cs of
              [] \<Rightarrow> [[c]]
            | w # ws \<Rightarrow> (c # w) # ws))"

text \<open>\<^verbatim>\<open>Object.create(v)\<close>: the prototype is an object or \<^verbatim>\<open>null\<close>.\<close>

definition object_create :: "jsval \<Rightarrow> error + jsval" where
  "object_create v =
     (if is_object v \<or> v = Null then Inr (Obj [] v)
      else (case v of Ctor c \<Rightarrow> Inr (Obj [] v) | _ \<Rightarrow> Inl TypeError))"

text \<open>\<^verbatim>\<open>v instanceof C\<close>, for the constructor \<open>c\<close> of a class of the registry or a built-in one.
  No class of the registry extends another class of the registry.\<close>

fun instanceof :: "jsval \<Rightarrow> ctor \<Rightarrow> bool" where
  "instanceof (Inst c' args fs) c = (c' = c \<or> c = ObjectC)"
| "instanceof (Obj ps p) c =
     (if p = ObjProto then c = ObjectC else if p = Null then False else instanceof p c)"
| "instanceof (Arr xs) c = (c = ArrayC \<or> c = ObjectC)"
| "instanceof (Ctor c') c = (c = ObjectC)"
| "instanceof _ c = False"

text \<open>\<^verbatim>\<open>v instanceof f\<close>: a \<^verbatim>\<open>TypeError\<close> when \<open>f\<close> is not a function.\<close>

definition instanceOf :: "jsval \<Rightarrow> jsval \<Rightarrow> error + bool" where
  "instanceOf v f = (case f of Ctor c \<Rightarrow> Inr (instanceof v c) | _ \<Rightarrow> Inl TypeError)"

text \<open>\<^verbatim>\<open>Array.isArray(v)\<close>, and the elements of an array.\<close>

fun isArray :: "jsval \<Rightarrow> bool" where
  "isArray (Arr xs) = True"
| "isArray _ = False"

fun elements :: "jsval \<Rightarrow> jsval list" where
  "elements (Arr xs) = xs"
| "elements _ = []"

section \<open>The collaborators of the engine\<close>

text \<open>
  The component classes and \<^verbatim>\<open>Legend.defaults\<close> are imported by the source file and are
  not part of it. They are parameters of the embedding: \<open>fields_of W c args\<close> are the
  fields an instance of \<open>c\<close> has when \<^verbatim>\<open>new c(...args)\<close> returns, and \<open>legend_defaults W\<close>
  is the value of \<^verbatim>\<open>Legend.defaults\<close>. Assigning a field of an instance stores the value
  under that name (section 6 of the specification: "settable properties addressable by
  name").
\<close>

record world =
  fields_of :: "ctor \<Rightarrow> jsval list \<Rightarrow> props"
  legend_defaults :: jsval

text \<open>\<^verbatim>\<open>document.body\<close>: a host object, whose class cannot be constructed by \<^verbatim>\<open>new\<close>.\<close>

definition document_body :: jsval where
  "document_body = Inst HTMLBodyElement [] []"

fun construct :: "world \<Rightarrow> ctor \<Rightarrow> jsval list \<Rightarrow> error + jsval" where
  "construct W ObjectC args = (if args = [] then Inr (obj []) else Inl Unmodelled)"
| "construct W ArrayC args = (if args = [] then Inr (Arr []) else Inl Unmodelled)"
| "construct W StringC args = Inl Unmodelled"
| "construct W HTMLBodyElement args = Inl TypeError"
| "construct W c args = Inr (Inst c args (fields_of W c args))"

text \<open>\<^verbatim>\<open>new f(...args)\<close>: a \<^verbatim>\<open>TypeError\<close> when \<open>f\<close> is not a constructor.\<close>

definition new_instance :: "world \<Rightarrow> jsval \<Rightarrow> jsval list \<Rightarrow> error + jsval" where
  "new_instance W f args = (case f of Ctor c \<Rightarrow> construct W c args | _ \<Rightarrow> Inl TypeError)"

section \<open>The schema registry\<close>

text \<open>The constant \<^verbatim>\<open>mappings\<close> (lines 15 to 94), key for key: the descriptor of the
  cartesian charts (lines 16 to 78), that of the polar charts (lines 79 to 93), and the
  registry that holds the two.\<close>

definition cartesianMapping :: jsval where
  "cartesianMapping = obj [
     (''constructor'', Ctor CartesianChart),
     (''constructorParams'', Arr [Str ''document'']),
     (''exclude'', Arr [Str ''parent'', Str ''data'']),
     (''defaults'', obj [
        (''axes'', Arr [
           obj [(''type'', Str ''category''), (''position'', Str ''bottom'')],
           obj [(''type'', Str ''number''), (''position'', Str ''left'')]])]),
     (''padding'', obj [(''constructor'', Ctor Padding)]),
     (''title'', obj [(''constructor'', Ctor Caption)]),
     (''subtitle'', obj [(''constructor'', Ctor Caption)]),
     (''axes'', obj [
        (''number'', obj [
           (''constructor'', Ctor NumberAxis), (''label'', obj []), (''tick'', obj [])]),
        (''category'', obj [
           (''constructor'', Ctor CategoryAxis), (''label'', obj []), (''tick'', obj [])])]),
     (''series'', obj [
        (''line'', obj [(''constructor'', Ctor LineSeries), (''marker'', obj [])]),
        (''column'', obj [(''constructor'', Ctor ColumnSeries)]),
        (''bar'', obj [(''constructor'', Ctor BarSeries)]),
        (''scatter'', obj [(''constructor'', Ctor ScatterSeries), (''marker'', obj [])]),
        (''area'', obj [(''constructor'', Ctor AreaSeries), (''marker'', obj [])])]),
     (''legend'', obj [(''constructor'', Ctor Legend)])]"

definition polarMapping :: jsval where
  "polarMapping = obj [
     (''constructor'', Ctor PolarChart),
     (''constructorParams'', Arr [Str ''document'']),
     (''defaults'', obj [(''parent'', document_body)]),
     (''series'', obj [
        (''pie'', obj [(''constructor'', Ctor PieSeries)])]),
     (''legend'', obj [(''constructor'', Ctor Legend)])]"

definition mappings :: jsval where
  "mappings = obj [(''cartesian'', cartesianMapping), (''polar'', polarMapping)]"

text \<open>
  \<^verbatim>\<open>getMapping\<close> (lines 96 to 103). The loop reads \<^verbatim>\<open>value[part]\<close> for every part with no
  test in between: once a part is absent, \<open>value\<close> is \<^verbatim>\<open>undefined\<close> and reading the next
  part raises. A path that is not a string has no \<^verbatim>\<open>split\<close>.
\<close>

fun forEachPart :: "jsval \<Rightarrow> string list \<Rightarrow> error + jsval" where
  "forEachPart v [] = Inr v"
| "forEachPart v (part # parts) = bind (getprop v part) (\<lambda>v'. forEachPart v' parts)"

definition getMapping :: "jsval \<Rightarrow> error + jsval" where
  "getMapping path =
     (case path of
        Str s \<Rightarrow> forEachPart mappings (split_dot s)
      | _ \<Rightarrow> Inl TypeError)"

section \<open>The builder engine\<close>

subsection \<open>Type inference\<close>

text \<open>The two loops of \<^verbatim>\<open>setChartType\<close> (lines 120 to 127): the first chart type, in the
  order of the registry, that registers the series type.\<close>

fun innerLoop :: "jsval \<Rightarrow> string list \<Rightarrow> bool" where
  "innerLoop seriesType' [] = False"
| "innerLoop seriesType' (seriesType # rest) =
     (if seriesType' = Str seriesType then True else innerLoop seriesType' rest)"

fun outerLoop :: "jsval \<Rightarrow> string list \<Rightarrow> error + string option" where
  "outerLoop seriesType' [] = Inr None"
| "outerLoop seriesType' (chartType # rest) =
     bind (getprop mappings chartType) (\<lambda>m.
     bind (getprop m ''series'') (\<lambda>ss.
     if innerLoop seriesType' (keys_in ss) then Inr (Some chartType)
     else outerLoop seriesType' rest))"

text \<open>Lines 117 and 119: the value of \<^verbatim>\<open>series && series.type\<close>, where \<^verbatim>\<open>series\<close> is
  \<^verbatim>\<open>options.series && options.series[0]\<close>.\<close>

definition firstSeriesType :: "jsval \<Rightarrow> error + jsval" where
  "firstSeriesType options =
     bind (getprop options ''series'') (\<lambda>s.
     bind (if truthy s then getprop s ''0'' else Inr s) (\<lambda>series.
     if truthy series then getprop series ''type'' else Inr series))"

text \<open>\<^verbatim>\<open>setChartType\<close> (lines 114 to 133); the result is \<open>options\<close> after the call.\<close>

definition setChartType :: "jsval \<Rightarrow> error + jsval" where
  "setChartType options =
     bind (getprop options ''type'') (\<lambda>t.
     if \<not> truthy t then
       bind (firstSeriesType options) (\<lambda>seriesType'.
       bind (if truthy seriesType' then
               bind (outerLoop seriesType' (keys_in mappings)) (\<lambda>found.
               case found of
                 Some chartType \<Rightarrow> setprop options ''type'' (Str chartType)
               | None \<Rightarrow> Inr options)
             else Inr options) (\<lambda>options1.
       bind (getprop options1 ''type'') (\<lambda>t1.
       if \<not> truthy t1 then setprop options1 ''type'' (Str ''cartesian'')
       else Inr options1)))
     else Inr options)"

text \<open>\<^verbatim>\<open>setComponentType\<close> (lines 135 to 149). \<open>path\<close> is \<open>Undefined\<close> or a string.\<close>

definition setComponentType :: "jsval \<Rightarrow> jsval \<Rightarrow> error + jsval" where
  "setComponentType options path =
     bind (if \<not> truthy path then setChartType options else Inr options) (\<lambda>options1.
     bind (if path = Str ''cartesian.series''
           then bind (getprop options1 ''type'') (\<lambda>t.
                if \<not> truthy t then setprop options1 ''type'' (Str ''line'') else Inr options1)
           else Inr options1) (\<lambda>options2.
     if path = Str ''polar.series''
     then bind (getprop options2 ''type'') (\<lambda>t.
          if \<not> truthy t then setprop options2 ''type'' (Str ''pie'') else Inr options2)
     else Inr options2))"

subsection \<open>Defaults\<close>

text \<open>\<^verbatim>\<open>setComponentDefaults\<close> (lines 151 to 162).\<close>

fun defaultsLoop :: "jsval \<Rightarrow> string list \<Rightarrow> jsval \<Rightarrow> error + jsval" where
  "defaultsLoop defaults [] options = Inr options"
| "defaultsLoop defaults (key # keys) options =
     bind (getprop options key) (\<lambda>v.
     bind (if \<not> truthy v
           then bind (getprop defaults key) (\<lambda>d. setprop options key d)
           else Inr options) (\<lambda>options1.
     defaultsLoop defaults keys options1))"

definition setComponentDefaults :: "jsval \<Rightarrow> jsval \<Rightarrow> error + jsval" where
  "setComponentDefaults options mapping =
     bind (getprop mapping ''defaults'') (\<lambda>defaults.
     if truthy defaults then defaultsLoop defaults (keys_in defaults) options
     else Inr options)"

subsection \<open>Path resolution\<close>

text \<open>\<^verbatim>\<open>path + '.' + v\<close>.\<close>

definition dotted :: "jsval \<Rightarrow> jsval \<Rightarrow> error + jsval" where
  "dotted path v =
     bind (to_string path) (\<lambda>p.
     bind (to_string v) (\<lambda>s. Inr (Str (p @ ''.'' @ s))))"

text \<open>Lines 171 to 177 of \<^verbatim>\<open>_create\<close>, the same as lines 225 to 231 of \<^verbatim>\<open>_update\<close>: the
  value of \<open>path\<close> afterwards.\<close>

definition extendPath :: "jsval \<Rightarrow> jsval \<Rightarrow> error + jsval" where
  "extendPath options path =
     bind (getprop options ''type'') (\<lambda>t.
     if truthy path then (if truthy t then dotted path t else Inr path)
     else Inr t)"

text \<open>
  Lines 169 to 179 of \<^verbatim>\<open>_create\<close>, which are lines 223 to 233 of \<^verbatim>\<open>_update\<close> word for
  word: type inference, path resolution and descriptor lookup. The result is \<open>options\<close>
  after type inference, the resolved path and the value of \<^verbatim>\<open>mapping\<close>.
\<close>

definition resolveMapping :: "jsval \<Rightarrow> jsval \<Rightarrow> error + jsval \<times> jsval \<times> jsval" where
  "resolveMapping options path =
     bind (setComponentType options path) (\<lambda>options1.
     bind (extendPath options1 path) (\<lambda>path1.
     bind (getMapping path1) (\<lambda>mapping.
     Inr (options1, path1, mapping))))"

subsection \<open>Create\<close>

text \<open>
  \<^verbatim>\<open>_create\<close> calls itself on the nested values of a configuration, and on the defaults
  it has merged into it. The embedding bounds the depth of these calls by a first
  argument: \<open>None\<close> is the answer when the bound is reached, \<open>Some (Inl e)\<close> an exception
  and \<open>Some (Inr r)\<close> a result.
\<close>

definition run :: "error + 'a \<Rightarrow> ('a \<Rightarrow> (error + 'b) option) \<Rightarrow> (error + 'b) option" where
  "run m f = (case m of Inl e \<Rightarrow> Some (Inl e) | Inr x \<Rightarrow> f x)"

definition seq ::
  "(error + 'a) option \<Rightarrow> ('a \<Rightarrow> (error + 'b) option) \<Rightarrow> (error + 'b) option" where
  "seq m f = (case m of None \<Rightarrow> None | Some (Inl e) \<Rightarrow> Some (Inl e) | Some (Inr x) \<Rightarrow> f x)"

text \<open>\<^verbatim>\<open>mapping.constructorParams || []\<close>, as the receiver of \<^verbatim>\<open>map\<close> and \<^verbatim>\<open>indexOf\<close>.\<close>

definition paramsOrEmpty :: "jsval \<Rightarrow> error + jsval list" where
  "paramsOrEmpty cp =
     (if \<not> truthy cp then Inr []
      else (case cp of Arr xs \<Rightarrow> Inr xs | _ \<Rightarrow> Inl TypeError))"

text \<open>\<^verbatim>\<open>constructorParams.map((param) => options[param])\<close>.\<close>

fun paramLookups :: "jsval \<Rightarrow> jsval list \<Rightarrow> error + jsval list" where
  "paramLookups options [] = Inr []"
| "paramLookups options (param # rest) =
     bind (to_string param) (\<lambda>k.
     bind (getprop options k) (\<lambda>v.
     bind (paramLookups options rest) (\<lambda>vs. Inr (v # vs))))"

text \<open>Line 185: the values of the constructor parameters, the undefined ones left out.\<close>

definition constructorParamValues :: "jsval \<Rightarrow> jsval list \<Rightarrow> error + jsval list" where
  "constructorParamValues options constructorParams =
     bind (paramLookups options constructorParams) (\<lambda>vs.
     Inr (filter (\<lambda>v. v \<noteq> Undefined) vs))"

text \<open>\<^verbatim>\<open>mapping.exclude && mapping.exclude.indexOf(key) >= 0\<close>.\<close>

definition excluded :: "jsval \<Rightarrow> string \<Rightarrow> error + bool" where
  "excluded mapping key =
     bind (getprop mapping ''exclude'') (\<lambda>ex.
     if \<not> truthy ex then Inr False
     else (case ex of
             Arr xs \<Rightarrow> Inr (Str key \<in> set xs)
           | Str s \<Rightarrow> Inl Unmodelled
           | _ \<Rightarrow> Inl TypeError))"

text \<open>
  \<^verbatim>\<open>_create\<close> (lines 164 to 216), the \<^verbatim>\<open>map\<close> of line 195 and the loop of lines 188 to
  213. A result of \<open>priv_create\<close> is the value returned together with \<open>options\<close> after the
  call; when \<open>component\<close> is given, the value returned is that component with the
  assignments made into it. \<open>keysLoop\<close> carries \<open>options\<close> and \<open>component\<close> through the keys
  left to visit.
\<close>

function priv_create ::
    "nat \<Rightarrow> world \<Rightarrow> jsval \<Rightarrow> jsval \<Rightarrow> jsval \<Rightarrow> (error + jsval \<times> jsval) option"
  and mapCreate ::
    "nat \<Rightarrow> world \<Rightarrow> jsval list \<Rightarrow> jsval \<Rightarrow> (error + jsval list \<times> jsval list) option"
  and keysLoop ::
    "nat \<Rightarrow> world \<Rightarrow> jsval \<Rightarrow> jsval \<Rightarrow> jsval list \<Rightarrow> string list \<Rightarrow> jsval \<Rightarrow> jsval
      \<Rightarrow> (error + jsval \<times> jsval) option"
where
  "priv_create 0 W options path component = None"
| "priv_create (Suc n) W options path component =
     (if \<not> is_object options then Some (Inr (Undefined, options))
      else
        run (resolveMapping options path) (\<lambda>(options1, path1, mapping).
        if truthy mapping then
          run (setComponentDefaults options1 mapping) (\<lambda>options2.
          run (getprop mapping ''constructorParams'') (\<lambda>cp.
          run (paramsOrEmpty cp) (\<lambda>constructorParams.
          run (constructorParamValues options2 constructorParams) (\<lambda>vs.
          run (if truthy component then Inr component
               else bind (getprop mapping ''constructor'') (\<lambda>f. new_instance W f vs))
            (\<lambda>component1.
          seq (keysLoop n W mapping path1 constructorParams (keys_in options2)
                 options2 component1) (\<lambda>(options3, component2).
          Some (Inr (component2, options3))))))))
        else Some (Inr (Undefined, options1))))"
| "mapCreate n W [] path = Some (Inr ([], []))"
| "mapCreate n W (config # rest) path =
     seq (priv_create n W config path Undefined) (\<lambda>(sub, config').
     seq (mapCreate n W rest path) (\<lambda>(subs, rest').
     Some (Inr (sub # subs, config' # rest'))))"
| "keysLoop n W mapping path constructorParams [] options component =
     Some (Inr (options, component))"
| "keysLoop n W mapping path constructorParams (key # keys) options component =
     (if key \<noteq> ''type'' \<and> Str key \<notin> set constructorParams then
        run (getprop options key) (\<lambda>v.
        run (has_property mapping key) (\<lambda>inMapping.
        run (if inMapping then excluded mapping key else Inr False) (\<lambda>excl.
        if inMapping \<and> \<not> excl then
          (if isArray v then
             run (dotted path (Str key)) (\<lambda>subPath.
             seq (mapCreate n W (elements v) subPath) (\<lambda>(subComponents, configs').
             run (setprop component key (Arr (filter truthy subComponents)))
               (\<lambda>component1.
             keysLoop n W mapping path constructorParams keys
               (put_held options key (Arr configs')) component1)))
           else
             run (getprop mapping key) (\<lambda>mk.
             run (if truthy mk then getprop component key else Inr mk) (\<lambda>ck.
             if truthy mk \<and> truthy ck then
               run (dotted path (Str key)) (\<lambda>subPath.
               seq (priv_create n W v subPath ck) (\<lambda>(ret, v').
               keysLoop n W mapping path constructorParams keys
                 (put_held options key v')
                 (if truthy ret then put_held component key ret else component)))
             else
               run (getprop v ''type'') (\<lambda>vt.
               run (if truthy vt then Inr path else dotted path (Str key)) (\<lambda>subPath.
               seq (priv_create n W v subPath Undefined) (\<lambda>(subComponent, v').
               run (if truthy subComponent then setprop component key subComponent
                    else Inr component) (\<lambda>component1.
               keysLoop n W mapping path constructorParams keys
                 (put_held options key v') component1)))))))
        else
          run (setprop component key v) (\<lambda>component1.
          keysLoop n W mapping path constructorParams keys options component1))))
      else keysLoop n W mapping path constructorParams keys options component)"
  by pat_completeness auto
termination
  by (relation "inv_image (less_than <*lex*> less_than <*lex*> less_than)
        (\<lambda>x. case x of
           Inl (n, W, options, path, component) \<Rightarrow> (n, 0::nat, 0::nat)
         | Inr (Inl (n, W, xs, path)) \<Rightarrow> (n, 1, length xs)
         | Inr (Inr (n, W, mapping, path, cps, keys, options, component)) \<Rightarrow>
             (n, 2, length keys))") auto

fun proto_of :: "jsval \<Rightarrow> jsval" where
  "proto_of (Obj ps p) = p"
| "proto_of v = v"

text \<open>
  \<^verbatim>\<open>create\<close> (lines 106 to 108). The result is the value returned together with the
  caller's \<open>options\<close> after the call: the prototype of the object that \<^verbatim>\<open>_create\<close> worked on.
\<close>

definition create :: "nat \<Rightarrow> world \<Rightarrow> jsval \<Rightarrow> (error + jsval \<times> jsval) option" where
  "create n W options =
     run (object_create options) (\<lambda>options1.
     seq (priv_create n W options1 Undefined Undefined) (\<lambda>(ret, options2).
     Some (Inr (ret, proto_of options2))))"

subsection \<open>Update\<close>

text \<open>The loop of lines 244 to 250; the result is \<open>component\<close> after it.\<close>

fun legendLoop :: "world \<Rightarrow> string list \<Rightarrow> jsval \<Rightarrow> jsval \<Rightarrow> error + jsval" where
  "legendLoop W [] options component = Inr component"
| "legendLoop W (key # keys) options component =
     bind (getprop options ''legend'') (\<lambda>optionsLegend.
     bind (has_property optionsLegend key) (\<lambda>present.
     bind (getprop component ''legend'') (\<lambda>legend.
     bind (if present then getprop optionsLegend key
           else getprop (legend_defaults W) key) (\<lambda>v.
     bind (setprop legend key v) (\<lambda>legend1.
     legendLoop W keys options (put_held component ''legend'' legend1))))))"

text \<open>Lines 243 to 251.\<close>

definition updateLegend :: "world \<Rightarrow> jsval \<Rightarrow> jsval \<Rightarrow> error + jsval" where
  "updateLegend W options component =
     bind (getprop options ''legend'') (\<lambda>optionsLegend.
     if truthy optionsLegend
     then legendLoop W (keys_in (legend_defaults W)) options component
     else Inr component)"

text \<open>
  \<^verbatim>\<open>_update\<close> (lines 218 to 252). The function returns nothing; the result is \<open>component\<close>
  and \<open>options\<close> after the call.
\<close>

definition priv_update :: "world \<Rightarrow> jsval \<Rightarrow> jsval \<Rightarrow> jsval \<Rightarrow> error + jsval \<times> jsval" where
  "priv_update W component options path =
     (if \<not> is_object options then Inr (component, options)
      else
        bind (resolveMapping options path) (\<lambda>(options1, path1, mapping).
        if truthy mapping then
          bind (getprop mapping ''constructor'') (\<lambda>f.
          bind (instanceOf component f) (\<lambda>isInstance.
          if \<not> isInstance then Inr (component, options1)
          else
            bind (setComponentDefaults options1 mapping) (\<lambda>options2.
            bind (updateLegend W options2 component) (\<lambda>component1.
            Inr (component1, options2)))))
        else
          bind (updateLegend W options1 component) (\<lambda>component1.
          Inr (component1, options1))))"

text \<open>
  \<^verbatim>\<open>update\<close> (lines 110 to 112). The result is the caller's \<open>chart\<close> and \<open>options\<close> after
  the call.
\<close>

definition update :: "world \<Rightarrow> jsval \<Rightarrow> jsval \<Rightarrow> error + jsval \<times> jsval" where
  "update W chart options =
     bind (object_create options) (\<lambda>options1.
     bind (priv_update W chart options1 Undefined) (\<lambda>(chart1, options2).
     Inr (chart1, proto_of options2)))"

section \<open>What the claims are stated with\<close>


definition rootDescriptor :: "jsval \<Rightarrow> error + jsval" where
  "rootDescriptor options =
     bind (object_create options) (\<lambda>options1.
     bind (resolveMapping options1 Undefined) (\<lambda>(options2, path1, mapping).
     Inr mapping))"

text \<open>\<^verbatim>\<open>component.legend[key]\<close>.\<close>

definition legendOption :: "jsval \<Rightarrow> string \<Rightarrow> error + jsval" where
  "legendOption component key =
     bind (getprop component ''legend'') (\<lambda>legend. getprop legend key)"

text \<open>The value that line 246 or line 248 assigns for a key of \<^verbatim>\<open>Legend.defaults\<close>.\<close>

definition assignedValue :: "world \<Rightarrow> jsval \<Rightarrow> string \<Rightarrow> error + jsval" where
  "assignedValue W optionsLegend key =
     bind (has_property optionsLegend key) (\<lambda>present.
     if present then getprop optionsLegend key
     else getprop (legend_defaults W) key)"



text \<open>A world to run the engine in: charts are built with a legend, and the legend's
  table of defaults has two options.\<close>

definition sample_world :: world where
  "sample_world =
     \<lparr> fields_of = (\<lambda>c args.
         if c = CartesianChart \<or> c = PolarChart
         then [(''legend'', Inst Legend [] [(''position'', Str ''right'')])]
         else []),
       legend_defaults = obj [(''enabled'', Bool True), (''position'', Str ''right'')] \<rparr>"

definition polar_instance :: jsval where
  "polar_instance =
     Inst PolarChart []
       [(''legend'', Inst Legend [] [(''enabled'', Bool True), (''position'', Str ''left'')]),
        (''series'', Arr [Inst PieSeries [] [(''angleKey'', Str ''value'')]])]"

definition cartesian_instance :: jsval where
  "cartesian_instance =
     Inst CartesianChart []
       [(''legend'', Inst Legend [] [(''enabled'', Bool True), (''position'', Str ''left'')]),
        (''axes'', Arr [Inst CategoryAxis [] [(''position'', Str ''bottom'')],
                        Inst NumberAxis [] [(''position'', Str ''left'')]]),
        (''series'', Arr [Inst LineSeries [] [(''xKey'', Str ''month'')]])]"

section \<open>Lemmas about the runtime operations\<close>

lemma bind_Inr [simp]: "bind (Inr x) f = f x"
  by (simp add: bind_def)

lemma bind_Inl [simp]: "bind (Inl e) f = Inl e"
  by (simp add: bind_def)

lemma run_Inr [simp]: "run (Inr x) f = f x"
  by (simp add: run_def)

lemma run_Inl [simp]: "run (Inl e) f = Some (Inl e)"
  by (simp add: run_def)

lemma seq_Some_Inr [simp]: "seq (Some (Inr x)) f = f x"
  by (simp add: seq_def)

lemma seq_Some_Inl [simp]: "seq (Some (Inl e)) f = Some (Inl e)"
  by (simp add: seq_def)

lemma seq_None [simp]: "seq None f = None"
  by (simp add: seq_def)

lemma array_index_legend [simp]: "array_index ''legend'' = None"
  by (simp add: array_index_def digits_def)

lemmas engine_defs =
  create_def update_def priv_update_def object_create_def resolveMapping_def
  setComponentType_def setChartType_def firstSeriesType_def extendPath_def getMapping_def
  mappings_def cartesianMapping_def polarMapping_def document_body_def
  setComponentDefaults_def paramsOrEmpty_def
  constructorParamValues_def new_instance_def has_own_def excluded_def dotted_def
  array_index_def digits_def index_keys_def instanceOf_def updateLegend_def

lemma bind_eq_Inr: "(bind m f = Inr y) = (\<exists>x. m = Inr x \<and> f x = Inr y)"
  by (cases m) (simp_all add: bind_def)

lemma run_eq_Some_Inr: "(run m f = Some (Inr y)) = (\<exists>x. m = Inr x \<and> f x = Some (Inr y))"
  by (cases m) (simp_all add: run_def)

lemma seq_eq_Some_Inr: "(seq m f = Some (Inr y)) = (\<exists>x. m = Some (Inr x) \<and> f x = Some (Inr y))"
proof (cases m)
  case None
  then show ?thesis by simp
next
  case (Some r)
  then show ?thesis by (cases r) simp_all
qed

lemma map_of_set_own: "map_of (set_own k v ps) k' = (if k' = k then Some v else map_of ps k')"
  by (induction ps) auto


lemma setprop_cases:
  assumes "setprop v k x = Inr v'"
  obtains ps p where "v = Obj ps p" "v' = Obj (set_own k x ps) p"
  | c args fs where "v = Inst c args fs" "v' = Inst c args (set_own k x fs)"
  using assms by (cases v) auto

lemma getprop_setprop:
  assumes "setprop v k x = Inr v'"
  shows "getprop v' k' = (if k' = k then Inr x else getprop v k')"
  using assms by (rule setprop_cases) (auto simp: map_of_set_own)

lemma put_held_eq_Null: "(put_held v k x = Null) = (v = Null)"
  by (cases v) (auto split: option.splits)

lemma getprop_put_held_legend_other:
  "k \<noteq> ''legend'' \<Longrightarrow> getprop (put_held v ''legend'' x) k = getprop v k"
proof (induction v)
  case (Obj ps p)
  then show ?case
    by (auto simp: map_of_set_own put_held_eq_Null split: option.splits)
qed (auto simp: map_of_set_own)

lemma getprop_put_held_legend_same:
  assumes "getprop v ''legend'' = Inr y" and "y \<noteq> Undefined"
  shows "getprop (put_held v ''legend'' x) ''legend'' = Inr x"
  using assms
proof (induction v)
  case (Obj ps p)
  then show ?case
    by (auto simp: map_of_set_own put_held_eq_Null has_own_def split: option.splits if_splits)
qed (auto simp: map_of_set_own has_own_def split: option.splits if_splits)

section \<open>Lemmas about type inference, defaults and the legend loop\<close>

lemma case_prod_bind_eq_Inr:
  "(bind m (\<lambda>(a, b, c). f a b c) = Inr y) = (\<exists>a b c. m = Inr (a, b, c) \<and> f a b c = Inr y)"
  by (cases m) (auto simp: bind_def)

lemma setprop_Obj_shape:
  "setprop (Obj ps p) k x = Inr v' \<Longrightarrow> \<exists>ps'. v' = Obj ps' p"
  by auto

lemma setChartType_Obj:
  assumes "setChartType (Obj ps p) = Inr v'"
  shows "\<exists>ps'. v' = Obj ps' p"
  using assms
  by (auto simp: setChartType_def bind_eq_Inr split: if_splits option.splits)

lemma setComponentType_Obj:
  assumes "setComponentType (Obj ps p) path = Inr v'"
  shows "\<exists>ps'. v' = Obj ps' p"
proof -
  from assms obtain o1 o2 where
    a: "(if \<not> truthy path then setChartType (Obj ps p) else Inr (Obj ps p)) = Inr o1" and
    b: "(if path = Str ''cartesian.series''
           then bind (getprop o1 ''type'') (\<lambda>t.
                if \<not> truthy t then setprop o1 ''type'' (Str ''line'') else Inr o1)
           else Inr o1) = Inr o2" and
    c: "(if path = Str ''polar.series''
     then bind (getprop o2 ''type'') (\<lambda>t.
          if \<not> truthy t then setprop o2 ''type'' (Str ''pie'') else Inr o2)
     else Inr o2) = Inr v'"
    unfolding setComponentType_def bind_eq_Inr by blast
  from a obtain ps1 where o1: "o1 = Obj ps1 p"
    using setChartType_Obj by (auto split: if_splits)
  from b o1 obtain ps2 where o2: "o2 = Obj ps2 p"
    by (auto simp: bind_eq_Inr split: if_splits)
  from c o2 show ?thesis
    by (auto simp: bind_eq_Inr split: if_splits)
qed

lemma defaultsLoop_Obj:
  "defaultsLoop d keys (Obj ps p) = Inr v' \<Longrightarrow> \<exists>ps'. v' = Obj ps' p"
proof (induction keys arbitrary: ps)
  case Nil
  then show ?case by auto
next
  case (Cons key keys)
  then show ?case
    by (auto simp: bind_eq_Inr split: if_splits)
qed

lemma setComponentDefaults_Obj:
  "setComponentDefaults (Obj ps p) m = Inr v' \<Longrightarrow> \<exists>ps'. v' = Obj ps' p"
  by (auto simp: setComponentDefaults_def bind_eq_Inr defaultsLoop_Obj split: if_splits)

lemma resolveMapping_Obj:
  assumes "resolveMapping (Obj ps p) path = Inr (o1, p1, m)"
  shows "\<exists>ps'. o1 = Obj ps' p"
  using assms setComponentType_Obj
  by (auto simp: resolveMapping_def bind_eq_Inr)

lemma rootDescriptor_cases:
  assumes "rootDescriptor cfg = Inr m"
  obtains ps p1 where "object_create cfg = Inr (Obj [] cfg)"
    and "resolveMapping (Obj [] cfg) Undefined = Inr (Obj ps cfg, p1, m)"
proof -
  from assms obtain w o1 p1 where w: "object_create cfg = Inr w"
    and r: "resolveMapping w Undefined = Inr (o1, p1, m)"
    by (auto simp: rootDescriptor_def bind_eq_Inr)
  from w have w': "w = Obj [] cfg"
    by (auto simp: object_create_def split: if_splits jsval.splits)
  from r w' obtain ps where "o1 = Obj ps cfg"
    using resolveMapping_Obj by blast
  with w w' r that show ?thesis by blast
qed

lemma setprop_defined: "setprop v k x = Inr v' \<Longrightarrow> v \<noteq> Undefined \<and> v' \<noteq> Undefined"
  by (cases v) auto

lemma legendLoop_frame:
  assumes "legendLoop W keys options component = Inr component'" and "k \<noteq> ''legend''"
  shows "getprop component' k = getprop component k"
  using assms
proof (induction keys arbitrary: component)
  case Nil
  then show ?case by simp
next
  case (Cons key keys)
  from Cons.prems(1) obtain legend1 where
    "legendLoop W keys options (put_held component ''legend'' legend1) = Inr component'"
    by (auto simp: bind_eq_Inr)
  from Cons.IH [OF this Cons.prems(2)] Cons.prems(2) show ?case
    by (simp add: getprop_put_held_legend_other)
qed

lemma legendLoop_effect:
  assumes "legendLoop W keys options component = Inr component'"
    and "getprop options ''legend'' = Inr ol"
    and "\<forall>k\<in>S. \<exists>v. legendOption component k = Inr v \<and> assignedValue W ol k = Inr v"
  shows "\<forall>k\<in>S \<union> set keys. \<exists>v. legendOption component' k = Inr v \<and> assignedValue W ol k = Inr v"
  using assms
proof (induction keys arbitrary: component S)
  case Nil
  then show ?case by simp
next
  case (Cons key keys)
  from Cons.prems(1,2) obtain present legend v legend1 where
    pres: "has_property ol key = Inr present" and
    leg: "getprop component ''legend'' = Inr legend" and
    val: "(if present then getprop ol key else getprop (legend_defaults W) key) = Inr v" and
    set: "setprop legend key v = Inr legend1" and
    rest: "legendLoop W keys options (put_held component ''legend'' legend1) = Inr component'"
    by (auto simp: bind_eq_Inr)
  let ?c1 = "put_held component ''legend'' legend1"
  from set have "legend \<noteq> Undefined" using setprop_defined by blast
  with leg have leg1: "getprop ?c1 ''legend'' = Inr legend1"
    by (rule getprop_put_held_legend_same)
  from pres val have av: "assignedValue W ol key = Inr v"
    by (simp add: assignedValue_def)
  have "\<forall>k\<in>insert key S. \<exists>v. legendOption ?c1 k = Inr v \<and> assignedValue W ol k = Inr v"
  proof
    fix k assume k: "k \<in> insert key S"
    show "\<exists>v. legendOption ?c1 k = Inr v \<and> assignedValue W ol k = Inr v"
    proof (cases "k = key")
      case True
      with leg1 set av show ?thesis
        by (simp add: legendOption_def getprop_setprop)
    next
      case False
      with k have "k \<in> S" by simp
      with Cons.prems(3) obtain w where
        w: "legendOption component k = Inr w" "assignedValue W ol k = Inr w" by blast
      from w(1) leg have "getprop legend k = Inr w"
        by (simp add: legendOption_def)
      with False set leg1 have "legendOption ?c1 k = Inr w"
        by (simp add: legendOption_def getprop_setprop)
      with w(2) show ?thesis by blast
    qed
  qed
  from Cons.IH [OF rest Cons.prems(2) this] show ?case by simp
qed

lemma getprop_setprop_other:
  "setprop v k x = Inr v' \<Longrightarrow> k' \<noteq> k \<Longrightarrow> getprop v' k' = getprop v k'"
  by (simp add: getprop_setprop)

lemma set_if_falsy_other:
  assumes "bind (getprop v k) (\<lambda>t. if \<not> truthy t then setprop v k x else Inr v) = Inr v'"
    and "k' \<noteq> k"
  shows "getprop v' k' = getprop v k'"
proof -
  from assms(1) obtain t where "(if \<not> truthy t then setprop v k x else Inr v) = Inr v'"
    by (auto simp: bind_eq_Inr)
  then show ?thesis
    using assms(2) by (cases "truthy t") (simp_all add: getprop_setprop_other)
qed

lemma defaultsLoop_keeps_truthy:
  assumes "defaultsLoop d keys options = Inr options'"
    and "getprop options k = Inr y" and "truthy y"
  shows "getprop options' k = Inr y"
  using assms
proof (induction keys arbitrary: options)
  case Nil
  then show ?case by simp
next
  case (Cons key keys)
  from Cons.prems(1) obtain v options1 where
    v: "getprop options key = Inr v" and
    o1: "(if \<not> truthy v then bind (getprop d key) (\<lambda>x. setprop options key x)
          else Inr options) = Inr options1" and
    rest: "defaultsLoop d keys options1 = Inr options'"
    by (auto simp: bind_eq_Inr)
  have "getprop options1 k = Inr y"
  proof (cases "truthy v")
    case True
    with o1 Cons.prems(2) show ?thesis by simp
  next
    case False
    with v Cons.prems(2,3) have ne: "k \<noteq> key" by auto
    from False o1 obtain x where "setprop options key x = Inr options1"
      by (auto simp: bind_eq_Inr)
    from getprop_setprop_other [OF this ne] Cons.prems(2) show ?thesis by simp
  qed
  from Cons.IH [OF rest this Cons.prems(3)] show ?case .
qed

lemma setComponentDefaults_keeps_truthy:
  assumes "setComponentDefaults options m = Inr options'"
    and "getprop options k = Inr y" and "truthy y"
  shows "getprop options' k = Inr y"
proof -
  from assms(1) obtain d where
    d: "(if truthy d then defaultsLoop d (keys_in d) options else Inr options) = Inr options'"
    by (auto simp: setComponentDefaults_def bind_eq_Inr)
  show ?thesis
  proof (cases "truthy d")
    case True
    with d assms(2,3) show ?thesis by (simp add: defaultsLoop_keeps_truthy)
  next
    case False
    with d assms(2) show ?thesis by simp
  qed
qed

lemma setChartType_other:
  assumes "setChartType options = Inr options'" and "k \<noteq> ''type''"
  shows "getprop options' k = getprop options k"
proof -
  from assms(1) obtain t where
    t: "(if \<not> truthy t then
       bind (firstSeriesType options) (\<lambda>seriesType'.
       bind (if truthy seriesType' then
               bind (outerLoop seriesType' (keys_in mappings)) (\<lambda>found.
               case found of
                 Some chartType \<Rightarrow> setprop options ''type'' (Str chartType)
               | None \<Rightarrow> Inr options)
             else Inr options) (\<lambda>options1.
       bind (getprop options1 ''type'') (\<lambda>t1.
       if \<not> truthy t1 then setprop options1 ''type'' (Str ''cartesian'')
       else Inr options1)))
     else Inr options) = Inr options'"
    unfolding setChartType_def bind_eq_Inr by blast
  show ?thesis
  proof (cases "truthy t")
    case True
    with t show ?thesis by simp
  next
    case False
    with t obtain st o1 where
      a: "(if truthy st then
               bind (outerLoop st (keys_in mappings)) (\<lambda>found.
               case found of
                 Some chartType \<Rightarrow> setprop options ''type'' (Str chartType)
               | None \<Rightarrow> Inr options)
             else Inr options) = Inr o1" and
      b: "bind (getprop o1 ''type'') (\<lambda>t1.
       if \<not> truthy t1 then setprop o1 ''type'' (Str ''cartesian'')
       else Inr o1) = Inr options'"
      by (auto simp: bind_eq_Inr)
    have 1: "getprop o1 k = getprop options k"
    proof (cases "truthy st")
      case True
      with a obtain found where
        "(case found of Some chartType \<Rightarrow> setprop options ''type'' (Str chartType)
               | None \<Rightarrow> Inr options) = Inr o1"
        by (auto simp: bind_eq_Inr)
      then show ?thesis
        using assms(2) by (cases found) (simp_all add: getprop_setprop_other)
    next
      case False
      with a show ?thesis by simp
    qed
    from set_if_falsy_other [OF b assms(2)] 1 show ?thesis by simp
  qed
qed

lemma setComponentType_other:
  assumes "setComponentType options path = Inr options'" and "k \<noteq> ''type''"
  shows "getprop options' k = getprop options k"
proof -
  from assms(1) obtain o1 o2 where
    a: "(if \<not> truthy path then setChartType options else Inr options) = Inr o1" and
    b: "(if path = Str ''cartesian.series''
           then bind (getprop o1 ''type'') (\<lambda>t.
                if \<not> truthy t then setprop o1 ''type'' (Str ''line'') else Inr o1)
           else Inr o1) = Inr o2" and
    c: "(if path = Str ''polar.series''
     then bind (getprop o2 ''type'') (\<lambda>t.
          if \<not> truthy t then setprop o2 ''type'' (Str ''pie'') else Inr o2)
     else Inr o2) = Inr options'"
    unfolding setComponentType_def bind_eq_Inr by blast
  from a assms(2) have 1: "getprop o1 k = getprop options k"
    by (cases "truthy path") (simp_all add: setChartType_other)
  from b assms(2) have 2: "getprop o2 k = getprop o1 k"
    by (cases "path = Str ''cartesian.series''") (simp_all add: set_if_falsy_other)
  from c assms(2) have 3: "getprop options' k = getprop o2 k"
    by (cases "path = Str ''polar.series''") (simp_all add: set_if_falsy_other)
  from 1 2 3 show ?thesis by simp
qed

lemma resolveMapping_other:
  assumes "resolveMapping options path = Inr (o1, p1, m)" and "k \<noteq> ''type''"
  shows "getprop o1 k = getprop options k"
proof -
  from assms(1) have "setComponentType options path = Inr o1"
    by (auto simp: resolveMapping_def bind_eq_Inr)
  from setComponentType_other [OF this assms(2)] show ?thesis .
qed

lemma bind_pair_eq_Inr:
  "(bind m (\<lambda>(a, b). f a b) = Inr y) = (\<exists>a b. m = Inr (a, b) \<and> f a b = Inr y)"
  by (cases m) (auto simp: bind_def)

lemma updateLegend_frame:
  assumes "updateLegend W options component = Inr component'" and "k \<noteq> ''legend''"
  shows "getprop component' k = getprop component k"
proof -
  from assms(1) obtain ol where
    "(if truthy ol then legendLoop W (keys_in (legend_defaults W)) options component
      else Inr component) = Inr component'"
    by (auto simp: updateLegend_def bind_eq_Inr)
  then show ?thesis
    using assms(2) by (cases "truthy ol") (simp_all add: legendLoop_frame)
qed

lemma priv_update_frame:
  assumes "priv_update W component options path = Inr (component', options')"
    and "k \<noteq> ''legend''"
  shows "getprop component' k = getprop component k"
proof (cases "is_object options")
  case False
  with assms(1) show ?thesis by (simp add: priv_update_def)
next
  case True
  with assms(1) obtain o1 and p1 :: jsval and m where
    body: "(if truthy m then
          bind (getprop m ''constructor'') (\<lambda>f.
          bind (instanceOf component f) (\<lambda>isInstance.
          if \<not> isInstance then Inr (component, o1)
          else
            bind (setComponentDefaults o1 m) (\<lambda>options2.
            bind (updateLegend W options2 component) (\<lambda>component1.
            Inr (component1, options2)))))
        else
          bind (updateLegend W o1 component) (\<lambda>component1.
          Inr (component1, o1))) = Inr (component', options')"
    by (auto simp: priv_update_def case_prod_bind_eq_Inr)
  show ?thesis
  proof (cases "truthy m")
    case False
    with body have "updateLegend W o1 component = Inr component'"
      by (auto simp: bind_eq_Inr)
    from updateLegend_frame [OF this assms(2)] show ?thesis .
  next
    case True
    with body obtain isInstance where
      rest: "(if \<not> isInstance then Inr (component, o1)
          else
            bind (setComponentDefaults o1 m) (\<lambda>options2.
            bind (updateLegend W options2 component) (\<lambda>component1.
            Inr (component1, options2)))) = Inr (component', options')"
      by (auto simp: bind_eq_Inr)
    show ?thesis
    proof (cases isInstance)
      case False
      with rest show ?thesis by simp
    next
      case True
      with rest obtain o2 where "updateLegend W o2 component = Inr component'"
        by (auto simp: bind_eq_Inr)
      from updateLegend_frame [OF this assms(2)] show ?thesis .
    qed
  qed
qed

lemma updateLegend_truthy:
  "getprop options ''legend'' = Inr ol \<Longrightarrow> truthy ol \<Longrightarrow>
   updateLegend W options component =
     legendLoop W (keys_in (legend_defaults W)) options component"
  by (simp add: updateLegend_def)

lemma update_legend_written:
  assumes root: "rootDescriptor options = Inr mapping"
    and pass: "\<not> truthy mapping \<or>
       (\<exists>f. getprop mapping ''constructor'' = Inr f \<and> instanceOf chart f = Inr True)"
    and ol: "getprop options ''legend'' = Inr ol" and tr: "truthy ol"
    and upd: "update W chart options = Inr (chart', options')"
  shows "\<forall>key\<in>set (keys_in (legend_defaults W)).
           \<exists>v. legendOption chart' key = Inr v \<and> assignedValue W ol key = Inr v"
proof -
  from root obtain ps p1 where
    w: "object_create options = Inr (Obj [] options)" and
    r: "resolveMapping (Obj [] options) Undefined = Inr (Obj ps options, p1, mapping)"
    by (rule rootDescriptor_cases)
  from ol have "options \<noteq> Null" by auto
  with ol have "getprop (Obj [] options) ''legend'' = Inr ol" by simp
  with resolveMapping_other [OF r, of "''legend''"]
  have ol1: "getprop (Obj ps options) ''legend'' = Inr ol" by simp
  from upd w obtain o2 where
    pu: "priv_update W chart (Obj [] options) Undefined = Inr (chart', o2)"
    by (auto simp: update_def bind_pair_eq_Inr)
  have "\<exists>o3. getprop o3 ''legend'' = Inr ol \<and>
          legendLoop W (keys_in (legend_defaults W)) o3 chart = Inr chart'"
  proof (cases "truthy mapping")
    case False
    with pu r have "updateLegend W (Obj ps options) chart = Inr chart'"
      by (auto simp: priv_update_def bind_eq_Inr)
    with updateLegend_truthy [OF ol1 tr] ol1 show ?thesis
      by metis
  next
    case True
    with pass obtain f where f: "getprop mapping ''constructor'' = Inr f"
      "instanceOf chart f = Inr True" by blast
    with pu r True obtain o3 where
      d: "setComponentDefaults (Obj ps options) mapping = Inr o3" and
      u: "updateLegend W o3 chart = Inr chart'"
      by (auto simp: priv_update_def bind_eq_Inr)
    note ol3 = setComponentDefaults_keeps_truthy [OF d ol1 tr]
    from updateLegend_truthy [OF ol3 tr] ol3 u show ?thesis
      by metis
  qed
  then obtain o3 where o3: "getprop o3 ''legend'' = Inr ol"
    "legendLoop W (keys_in (legend_defaults W)) o3 chart = Inr chart'" by blast
  from legendLoop_effect [OF o3(2) o3(1), of "{}"] show ?thesis by simp
qed

section \<open>Lemmas about the loop over the keys of a configuration\<close>

lemma seq_pair_eq_Some_Inr:
  "(seq m (\<lambda>(a, b). f a b) = Some (Inr y)) =
   (\<exists>a b. m = Some (Inr (a, b)) \<and> f a b = Some (Inr y))"
  by (auto simp: seq_eq_Some_Inr)


lemma keysLoop_invariant:
  assumes "keysLoop n W mapping path cps keys options component = Some (Inr (options', component'))"
    and "P component" and "\<forall>key\<in>set keys. Q key"
    and set: "\<And>c key x c1. P c \<Longrightarrow> Q key \<Longrightarrow> Str key \<notin> set cps \<Longrightarrow>
               setprop c key x = Inr c1 \<Longrightarrow> P c1"
    and put: "\<And>c key x. P c \<Longrightarrow> Q key \<Longrightarrow> Str key \<notin> set cps \<Longrightarrow> P (put_held c key x)"
  shows "P component'"
  using assms(1,2,3)
proof (induction keys arbitrary: options component)
  case Nil
  then show ?case by simp
next
  case (Cons key keys)
  from Cons.prems(3) have q: "Q key" and qs: "\<forall>key\<in>set keys. Q key" by simp_all
  note step = Cons.prems(1) [unfolded keysLoop.simps]
  show ?case
  proof (cases "key \<noteq> ''type'' \<and> Str key \<notin> set cps")
    case False
    with step have "keysLoop n W mapping path cps keys options component
        = Some (Inr (options', component'))" by auto
    from Cons.IH [OF this Cons.prems(2) qs] show ?thesis .
  next
    case True
    then have cp: "Str key \<notin> set cps" by simp
    from True step obtain v inMapping excl where
      body: "(if inMapping \<and> \<not> excl then
          (if isArray v then
             run (dotted path (Str key)) (\<lambda>subPath.
             seq (mapCreate n W (elements v) subPath) (\<lambda>(subComponents, configs').
             run (setprop component key (Arr (filter truthy subComponents)))
               (\<lambda>component1.
             keysLoop n W mapping path cps keys
               (put_held options key (Arr configs')) component1)))
           else
             run (getprop mapping key) (\<lambda>mk.
             run (if truthy mk then getprop component key else Inr mk) (\<lambda>ck.
             if truthy mk \<and> truthy ck then
               run (dotted path (Str key)) (\<lambda>subPath.
               seq (priv_create n W v subPath ck) (\<lambda>(ret, v').
               keysLoop n W mapping path cps keys
                 (put_held options key v')
                 (if truthy ret then put_held component key ret else component)))
             else
               run (getprop v ''type'') (\<lambda>vt.
               run (if truthy vt then Inr path else dotted path (Str key)) (\<lambda>subPath.
               seq (priv_create n W v subPath Undefined) (\<lambda>(subComponent, v').
               run (if truthy subComponent then setprop component key subComponent
                    else Inr component) (\<lambda>component1.
               keysLoop n W mapping path cps keys
                 (put_held options key v') component1)))))))
        else
          run (setprop component key v) (\<lambda>component1.
          keysLoop n W mapping path cps keys options component1))
        = Some (Inr (options', component'))"
      by (auto simp: run_eq_Some_Inr)
    have "\<exists>o1 c1. P c1 \<and>
        keysLoop n W mapping path cps keys o1 c1 = Some (Inr (options', component'))"
    proof (cases "inMapping \<and> \<not> excl")
      case False
      with body obtain c1 where "setprop component key v = Inr c1"
        "keysLoop n W mapping path cps keys options c1 = Some (Inr (options', component'))"
        by (auto simp: run_eq_Some_Inr)
      with set [OF Cons.prems(2) q cp] show ?thesis by blast
    next
      case inm: True
      show ?thesis
      proof (cases "isArray v")
        case True
        with inm body obtain subs configs' c1 where
          "setprop component key (Arr (filter truthy subs)) = Inr c1"
          "keysLoop n W mapping path cps keys (put_held options key (Arr configs')) c1
            = Some (Inr (options', component'))"
          by (auto simp: run_eq_Some_Inr seq_pair_eq_Some_Inr)
        with set [OF Cons.prems(2) q cp] show ?thesis by blast
      next
        case False
        with inm body obtain mk ck where
          inner: "(if truthy mk \<and> truthy ck then
               run (dotted path (Str key)) (\<lambda>subPath.
               seq (priv_create n W v subPath ck) (\<lambda>(ret, v').
               keysLoop n W mapping path cps keys
                 (put_held options key v')
                 (if truthy ret then put_held component key ret else component)))
             else
               run (getprop v ''type'') (\<lambda>vt.
               run (if truthy vt then Inr path else dotted path (Str key)) (\<lambda>subPath.
               seq (priv_create n W v subPath Undefined) (\<lambda>(subComponent, v').
               run (if truthy subComponent then setprop component key subComponent
                    else Inr component) (\<lambda>component1.
               keysLoop n W mapping path cps keys
                 (put_held options key v') component1))))) = Some (Inr (options', component'))"
          by (auto simp: run_eq_Some_Inr)
        show ?thesis
        proof (cases "truthy mk \<and> truthy ck")
          case True
          with inner obtain ret v' where
            k: "keysLoop n W mapping path cps keys (put_held options key v')
                 (if truthy ret then put_held component key ret else component)
               = Some (Inr (options', component'))"
            by (auto simp: run_eq_Some_Inr seq_pair_eq_Some_Inr)
          have "P (if truthy ret then put_held component key ret else component)"
            using put [OF Cons.prems(2) q cp] Cons.prems(2) by simp
          with k show ?thesis by blast
        next
          case False
          with inner obtain sub v' c1 where
            s: "(if truthy sub then setprop component key sub else Inr component) = Inr c1" and
            k: "keysLoop n W mapping path cps keys (put_held options key v') c1
               = Some (Inr (options', component'))"
            by (auto simp: run_eq_Some_Inr seq_pair_eq_Some_Inr)
          from s have "P c1"
            using set [OF Cons.prems(2) q cp] Cons.prems(2) by (cases "truthy sub") auto
          with k show ?thesis by blast
        qed
      qed
    qed
    then obtain o1 c1 where "P c1"
      "keysLoop n W mapping path cps keys o1 c1 = Some (Inr (options', component'))" by blast
    from Cons.IH [OF this(2) this(1) qs] show ?thesis .
  qed
qed

lemma paramLookups_in_order:
  "paramLookups options cps = Inr looked \<Longrightarrow>
   list_all2 (\<lambda>param v. \<exists>k. to_string param = Inr k \<and> getprop options k = Inr v) cps looked"
proof (induction cps arbitrary: looked)
  case Nil
  then show ?case by simp
next
  case (Cons param rest)
  then show ?case by (auto simp: bind_eq_Inr)
qed

lemma new_instance_Inst:
  assumes "new_instance W f vs = Inr (Inst c args fs0)"
  shows "args = vs \<and> f = Ctor c"
proof -
  from assms obtain c' where f: "f = Ctor c'" and c: "construct W c' vs = Inr (Inst c args fs0)"
    by (cases f) (simp_all add: new_instance_def)
  from c have "args = vs \<and> c' = c"
    by (cases c') (simp_all split: if_splits)
  with f show ?thesis by simp
qed














section \<open>Lemmas about the type of a series element and the inferred chart kind\<close>

lemma array_index_names [simp]:
  "array_index ''type'' = None" "array_index ''series'' = None" "array_index ''axes'' = None"
  by (simp_all add: array_index_def digits_def)

lemma array_index_0 [simp]: "array_index ''0'' = Some 0"
  by (simp add: array_index_def digits_def)


lemma is_object_put_held [simp]: "is_object (put_held v k x) = is_object v"
  by (cases v) (auto split: option.splits)

lemma setprop_is_object: "setprop v k x = Inr v' \<Longrightarrow> is_object v'"
  by (erule setprop_cases) simp_all

lemma set_if_falsy_is_object:
  assumes "bind (getprop v k) (\<lambda>t. if \<not> truthy t then setprop v k x else Inr v) = Inr v'"
    and "is_object v"
  shows "is_object v'"
proof -
  from assms(1) obtain t where "(if \<not> truthy t then setprop v k x else Inr v) = Inr v'"
    by (auto simp: bind_eq_Inr)
  then show ?thesis
    using assms(2) by (cases "truthy t") (auto simp: setprop_is_object)
qed











lemma put_held_wrapper: "put_held (Obj [] cf) k y = Obj [] (put_held cf k y)"
  by (simp add: has_own_def)
















section \<open>Lemmas about a key that holds an array\<close>






lemma bind_Inr_right [simp]: "bind m Inr = m"
  by (cases m) simp_all




section \<open>Update: the kind check, the legend and the frame\<close>

text \<open>
  C5. When the descriptor resolved for the configuration is found and the chart is not an
  instance of the descriptor's constructor, \<^verbatim>\<open>update\<close> returns at line 237: the chart
  and the configuration are what they were, whatever the configuration holds (a legend
  included).
\<close>

theorem update_kind_mismatch_noop:
  assumes "rootDescriptor options = Inr mapping" and "truthy mapping"
    and "getprop mapping ''constructor'' = Inr f" and "instanceOf chart f = Inr False"
  shows "update W chart options = Inr (chart, options)"
proof -
  from assms(1) obtain ps p1 where
    w: "object_create options = Inr (Obj [] options)" and
    r: "resolveMapping (Obj [] options) Undefined = Inr (Obj ps options, p1, mapping)"
    by (rule rootDescriptor_cases)
  from r assms(2,3,4) have
    "priv_update W chart (Obj [] options) Undefined = Inr (chart, Obj ps options)"
    by (simp add: priv_update_def)
  with w show ?thesis by (simp add: update_def)
qed

theorem update_kind_mismatch_noop_witness:
  "rootDescriptor (obj [(''type'', Str ''cartesian''),
                        (''legend'', obj [(''position'', Str ''top'')])])
     = getprop mappings ''cartesian''
   \<and> instanceOf polar_instance (Ctor CartesianChart) = Inr False
   \<and> update sample_world polar_instance
        (obj [(''type'', Str ''cartesian''), (''legend'', obj [(''position'', Str ''top'')])])
     = Inr (polar_instance,
            obj [(''type'', Str ''cartesian''), (''legend'', obj [(''position'', Str ''top'')])])"
proof -
  let ?cfg = "obj [(''type'', Str ''cartesian''), (''legend'', obj [(''position'', Str ''top'')])]"
  let ?m = "cartesianMapping"
  have m: "getprop mappings ''cartesian'' = Inr ?m"
    by (simp add: mappings_def)
  have r: "rootDescriptor ?cfg = Inr ?m"
    by (simp add: rootDescriptor_def engine_defs)
  have t: "truthy ?m" by (simp add: cartesianMapping_def)
  have c: "getprop ?m ''constructor'' = Inr (Ctor CartesianChart)"
    by (simp add: cartesianMapping_def)
  have i: "instanceOf polar_instance (Ctor CartesianChart) = Inr False"
    by (simp add: instanceOf_def polar_instance_def)
  from update_kind_mismatch_noop [OF r t c i, of sample_world] r m i show ?thesis
    by simp
qed

text \<open>
  C9. Whatever the configuration, a call of \<^verbatim>\<open>update\<close> that returns leaves every
  property of the chart other than \<^verbatim>\<open>legend\<close> as it was: the axes, the series, the title
  and the subtitle the chart holds afterwards are the values it held before. The only
  assignments of \<^verbatim>\<open>_update\<close> into the chart are those of lines 246 and 248, into
  \<^verbatim>\<open>component.legend\<close>.
\<close>

theorem update_frame:
  assumes "update W chart options = Inr (chart', options')" and "k \<noteq> ''legend''"
  shows "getprop chart' k = getprop chart k"
proof -
  from assms(1) obtain w o2 where "priv_update W chart w Undefined = Inr (chart', o2)"
    by (auto simp: update_def bind_eq_Inr bind_pair_eq_Inr)
  from priv_update_frame [OF this assms(2)] show ?thesis .
qed

theorem update_frame_witness:
  "update sample_world cartesian_instance
     (obj [(''legend'', obj [(''position'', Str ''top'')]),
           (''axes'', Arr [obj [(''type'', Str ''number'')]]),
           (''series'', Arr [])])
   = Inr (Inst CartesianChart []
       [(''legend'', Inst Legend [] [(''enabled'', Bool True), (''position'', Str ''top'')]),
        (''axes'', Arr [Inst CategoryAxis [] [(''position'', Str ''bottom'')],
                        Inst NumberAxis [] [(''position'', Str ''left'')]]),
        (''series'', Arr [Inst LineSeries [] [(''xKey'', Str ''month'')]])],
      obj [(''legend'', obj [(''position'', Str ''top'')]),
           (''axes'', Arr [obj [(''type'', Str ''number'')]]),
           (''series'', Arr [])])
   \<and> getprop (Inst CartesianChart []
       [(''legend'', Inst Legend [] [(''enabled'', Bool True), (''position'', Str ''top'')]),
        (''axes'', Arr [Inst CategoryAxis [] [(''position'', Str ''bottom'')],
                        Inst NumberAxis [] [(''position'', Str ''left'')]]),
        (''series'', Arr [Inst LineSeries [] [(''xKey'', Str ''month'')]])]) ''axes''
     = getprop cartesian_instance ''axes''"
proof -
  have u: "update sample_world cartesian_instance
     (obj [(''legend'', obj [(''position'', Str ''top'')]),
           (''axes'', Arr [obj [(''type'', Str ''number'')]]),
           (''series'', Arr [])])
   = Inr (Inst CartesianChart []
       [(''legend'', Inst Legend [] [(''enabled'', Bool True), (''position'', Str ''top'')]),
        (''axes'', Arr [Inst CategoryAxis [] [(''position'', Str ''bottom'')],
                        Inst NumberAxis [] [(''position'', Str ''left'')]]),
        (''series'', Arr [Inst LineSeries [] [(''xKey'', Str ''month'')]])],
      obj [(''legend'', obj [(''position'', Str ''top'')]),
           (''axes'', Arr [obj [(''type'', Str ''number'')]]),
           (''series'', Arr [])])"
    by (simp add: engine_defs sample_world_def cartesian_instance_def)
  have k: "''axes'' \<noteq> ''legend''" by simp
  from update_frame [OF u k] u show ?thesis by simp
qed

text \<open>
  C4, as amended. The claim as written fails when the kind check stops the call (the
  instance after this theorem). For a call of \<^verbatim>\<open>update\<close> that returns and
  is not stopped by the kind check (no descriptor is resolved, or the chart is an instance
  of the descriptor's constructor), with a configuration whose \<^verbatim>\<open>legend\<close> is truthy:
  every key of \<^verbatim>\<open>Legend.defaults\<close> is on the chart's legend afterwards, with the value of
  the configuration's legend when the key is in it, and the default otherwise.
\<close>

theorem update_legend_overwrite:
  assumes "rootDescriptor options = Inr mapping"
    and "\<not> truthy mapping \<or>
       (\<exists>f. getprop mapping ''constructor'' = Inr f \<and> instanceOf chart f = Inr True)"
    and "getprop options ''legend'' = Inr ol" and "truthy ol"
    and "update W chart options = Inr (chart', options')"
  shows "\<forall>key\<in>set (keys_in (legend_defaults W)).
           \<exists>v. legendOption chart' key = Inr v \<and> assignedValue W ol key = Inr v"
  using assms by (rule update_legend_written)

theorem update_legend_overwrite_witness:
  "update sample_world cartesian_instance (obj [(''legend'', obj [])])
     = Inr (Inst CartesianChart []
         [(''legend'', Inst Legend [] [(''enabled'', Bool True), (''position'', Str ''right'')]),
          (''axes'', Arr [Inst CategoryAxis [] [(''position'', Str ''bottom'')],
                          Inst NumberAxis [] [(''position'', Str ''left'')]]),
          (''series'', Arr [Inst LineSeries [] [(''xKey'', Str ''month'')]])],
        obj [(''legend'', obj [])])
   \<and> legendOption cartesian_instance ''position'' = Inr (Str ''left'')
   \<and> (\<exists>v. legendOption (Inst CartesianChart []
         [(''legend'', Inst Legend [] [(''enabled'', Bool True), (''position'', Str ''right'')]),
          (''axes'', Arr [Inst CategoryAxis [] [(''position'', Str ''bottom'')],
                          Inst NumberAxis [] [(''position'', Str ''left'')]]),
          (''series'', Arr [Inst LineSeries [] [(''xKey'', Str ''month'')]])]) ''position''
            = Inr v
          \<and> assignedValue sample_world (obj []) ''position'' = Inr v \<and> v = Str ''right'')"
proof -
  let ?cfg = "obj [(''legend'', obj [])]"
  let ?after = "Inst CartesianChart []
         [(''legend'', Inst Legend [] [(''enabled'', Bool True), (''position'', Str ''right'')]),
          (''axes'', Arr [Inst CategoryAxis [] [(''position'', Str ''bottom'')],
                          Inst NumberAxis [] [(''position'', Str ''left'')]]),
          (''series'', Arr [Inst LineSeries [] [(''xKey'', Str ''month'')]])]"
  have r: "rootDescriptor ?cfg = Inr cartesianMapping"
    by (simp add: rootDescriptor_def engine_defs)
  have p: "\<not> truthy cartesianMapping \<or>
       (\<exists>f. getprop cartesianMapping ''constructor'' = Inr f
          \<and> instanceOf cartesian_instance f = Inr True)"
    by (simp add: cartesianMapping_def instanceOf_def cartesian_instance_def)
  have l: "getprop ?cfg ''legend'' = Inr (obj [])" by simp
  have t: "truthy (obj [])" by simp
  have u: "update sample_world cartesian_instance ?cfg = Inr (?after, ?cfg)"
    by (simp add: engine_defs sample_world_def cartesian_instance_def)
  have k: "''position'' \<in> set (keys_in (legend_defaults sample_world))"
    by (simp add: sample_world_def)
  have a: "assignedValue sample_world (obj []) ''position'' = Inr (Str ''right'')"
    by (simp add: assignedValue_def has_own_def sample_world_def)
  have b: "legendOption cartesian_instance ''position'' = Inr (Str ''left'')"
    by (simp add: legendOption_def cartesian_instance_def)
  from update_legend_overwrite [OF r p l t u] k a
  have "\<exists>v. legendOption ?after ''position'' = Inr v
          \<and> assignedValue sample_world (obj []) ''position'' = Inr v \<and> v = Str ''right''"
    by auto
  with u b show ?thesis by simp
qed

text \<open>
  The claim C4 as written, at a polar chart whose legend is at the left and the
  configuration \<^verbatim>\<open>{ legend: {} }\<close>: no type is given and there is no series, so the type
  is inferred as \<^verbatim>\<open>cartesian\<close>, the chart is not a cartesian chart, and the call returns
  at line 237. The legend keeps its position; the default is \<^verbatim>\<open>right\<close>.
\<close>

theorem legend_overwrite_counterexample:
  "update sample_world polar_instance (obj [(''legend'', obj [])])
     = Inr (polar_instance, obj [(''legend'', obj [])])
   \<and> legendOption polar_instance ''position'' = Inr (Str ''left'')
   \<and> assignedValue sample_world (obj []) ''position'' = Inr (Str ''right'')"
  by (simp add: engine_defs sample_world_def polar_instance_def legendOption_def
      assignedValue_def)



section \<open>Create: lookup, array elements, constructor parameters\<close>

text \<open>
  C2. The claim says that a lookup answers "not found" when any segment of the path is
  absent, and that \<^verbatim>\<open>create\<close> never raises for an unrecognized type. The source does so
  when the last segment is absent (the first two equations). When an earlier segment is
  absent, \<^verbatim>\<open>getMapping\<close> reads a property of \<^verbatim>\<open>undefined\<close>: for the type
  \<^verbatim>\<open>'foo.bar'\<close> the lookup raises a \<^verbatim>\<open>TypeError\<close>, and so does \<^verbatim>\<open>create\<close>, at the root of
  a configuration and at an element of \<^verbatim>\<open>series\<close>.
\<close>

theorem create_raises_on_absent_inner_segment:
  "getMapping (Str ''cartesian.series.unknownKind'') = Inr Undefined
   \<and> getMapping (Str ''unknownKind'') = Inr Undefined
   \<and> getMapping (Str ''foo.bar'') = Inl TypeError
   \<and> create (Suc n) W (obj [(''type'', Str ''foo.bar'')]) = Some (Inl TypeError)
   \<and> create (Suc (Suc n)) W
        (obj [(''type'', Str ''cartesian''), (''series'', Arr [obj [(''type'', Str ''foo.bar'')]])])
      = Some (Inl TypeError)"
  by (simp add: engine_defs)

text \<open>
  C1. The claim says that \<^verbatim>\<open>create\<close> leaves the caller's configuration and every node
  nested in it unchanged. \<^verbatim>\<open>Object.create\<close> shields the root only: the elements of
  \<^verbatim>\<open>series\<close> are passed to \<^verbatim>\<open>_create\<close> as they are, and line 142 assigns \<^verbatim>\<open>type\<close> on them.
  After \<^verbatim>\<open>create({ series: [{}] })\<close> the caller's series element has the type \<^verbatim>\<open>line\<close>.
\<close>

theorem create_mutates_nested_series:
  "\<exists>inst. create (Suc (Suc n)) W (obj [(''series'', Arr [obj []])])
     = Some (Inr (inst, obj [(''series'', Arr [obj [(''type'', Str ''line'')]])]))"
  by (simp add: engine_defs)




text \<open>
  C8. Take a call of \<^verbatim>\<open>_create\<close> that resolves a descriptor and returns. The values
  looked up for the constructor parameters are those of the configuration node (after
  the defaults are merged), one per parameter and in the order of
  \<^verbatim>\<open>constructorParams\<close>. When no component is passed in, the component is built by the
  descriptor's constructor from exactly these values with the undefined ones left out.
  The component returned has the class and the constructor arguments of the one line 186
  yields, and every field named by a constructor parameter is as line 186 left it: the
  loop of lines 188 to 213 assigns no such key.
\<close>

theorem constructor_params:
  assumes obj: "is_object options"
    and res: "resolveMapping options path = Inr (options1, path1, mapping)"
    and found: "truthy mapping"
    and dflt: "setComponentDefaults options1 mapping = Inr options2"
    and cp: "getprop mapping ''constructorParams'' = Inr cp"
    and cps: "paramsOrEmpty cp = Inr constructorParams"
    and looked: "paramLookups options2 constructorParams = Inr looked"
    and new: "(if truthy component then Inr component
               else bind (getprop mapping ''constructor'')
                      (\<lambda>f. new_instance W f (filter (\<lambda>v. v \<noteq> Undefined) looked)))
              = Inr (Inst c args fs0)"
    and run: "priv_create (Suc n) W options path component = Some (Inr (inst, options'))"
  shows "list_all2 (\<lambda>param v. \<exists>k. to_string param = Inr k \<and> getprop options2 k = Inr v)
           constructorParams looked
       \<and> (\<not> truthy component \<longrightarrow>
             getprop mapping ''constructor'' = Inr (Ctor c)
             \<and> args = filter (\<lambda>v. v \<noteq> Undefined) looked)
       \<and> (\<exists>fs. inst = Inst c args fs
             \<and> (\<forall>key. Str key \<in> set constructorParams \<longrightarrow> map_of fs key = map_of fs0 key))"
proof -
  let ?P = "\<lambda>v. \<exists>fs. v = Inst c args fs
             \<and> (\<forall>key. Str key \<in> set constructorParams \<longrightarrow> map_of fs key = map_of fs0 key)"
  from run obj res found dflt cp cps looked new
  have loop: "keysLoop n W mapping path1 constructorParams (keys_in options2) options2
           (Inst c args fs0) = Some (Inr (options', inst))"
    by (auto simp: constructorParamValues_def seq_pair_eq_Some_Inr)
  have "?P inst"
  proof (rule keysLoop_invariant [OF loop, where P = ?P and Q = "\<lambda>key. True"])
    show "?P (Inst c args fs0)" by simp
  next
    show "\<forall>key\<in>set (keys_in options2). True" by simp
  next
    fix v key x v1
    assume "?P v" "Str key \<notin> set constructorParams" "setprop v key x = Inr v1"
    then show "?P v1" by (auto simp: map_of_set_own)
  next
    fix v key x
    assume "?P v" "Str key \<notin> set constructorParams"
    then show "?P (put_held v key x)" by (auto simp: map_of_set_own)
  qed
  moreover have "\<not> truthy component \<longrightarrow>
             getprop mapping ''constructor'' = Inr (Ctor c)
             \<and> args = filter (\<lambda>v. v \<noteq> Undefined) looked"
  proof
    assume "\<not> truthy component"
    with new obtain f where f: "getprop mapping ''constructor'' = Inr f" and
      n: "new_instance W f (filter (\<lambda>v. v \<noteq> Undefined) looked) = Inr (Inst c args fs0)"
      by (auto simp: bind_eq_Inr)
    from new_instance_Inst [OF n] f
    show "getprop mapping ''constructor'' = Inr (Ctor c)
             \<and> args = filter (\<lambda>v. v \<noteq> Undefined) looked" by simp
  qed
  ultimately show ?thesis
    using paramLookups_in_order [OF looked] by simp
qed

theorem constructor_params_witness:
  "priv_create (Suc (Suc 0)) sample_world
      (Obj [] (obj [(''type'', Str ''cartesian''),
                    (''document'', Str ''doc''), (''width'', Num 400)]))
      Undefined Undefined
    = Some (Inr (Inst CartesianChart [Str ''doc'']
         [(''legend'', Inst Legend [] [(''position'', Str ''right'')]),
          (''axes'', Arr [Inst CategoryAxis [] [(''position'', Str ''bottom'')],
                          Inst NumberAxis [] [(''position'', Str ''left'')]]),
          (''width'', Num 400)],
        Obj [(''axes'', Arr [obj [(''type'', Str ''category''), (''position'', Str ''bottom'')],
                             obj [(''type'', Str ''number''), (''position'', Str ''left'')]])]
          (obj [(''type'', Str ''cartesian''),
                (''document'', Str ''doc''), (''width'', Num 400)])))
   \<and> list_all2 (\<lambda>param v. \<exists>k. to_string param = Inr k
         \<and> getprop (Obj [(''axes'', Arr [obj [(''type'', Str ''category''), (''position'', Str ''bottom'')],
                             obj [(''type'', Str ''number''), (''position'', Str ''left'')]])]
              (obj [(''type'', Str ''cartesian''),
                    (''document'', Str ''doc''), (''width'', Num 400)])) k = Inr v)
        [Str ''document''] [Str ''doc'']
   \<and> map_of [(''legend'', Inst Legend [] [(''position'', Str ''right'')]),
          (''axes'', Arr [Inst CategoryAxis [] [(''position'', Str ''bottom'')],
                          Inst NumberAxis [] [(''position'', Str ''left'')]]),
          (''width'', Num 400)] ''document'' = None"
proof -
  let ?cfg = "obj [(''type'', Str ''cartesian''),
                   (''document'', Str ''doc''), (''width'', Num 400)]"
  let ?o2 = "Obj [(''axes'', Arr [obj [(''type'', Str ''category''), (''position'', Str ''bottom'')],
                             obj [(''type'', Str ''number''), (''position'', Str ''left'')]])] ?cfg"
  let ?inst = "Inst CartesianChart [Str ''doc'']
         [(''legend'', Inst Legend [] [(''position'', Str ''right'')]),
          (''axes'', Arr [Inst CategoryAxis [] [(''position'', Str ''bottom'')],
                          Inst NumberAxis [] [(''position'', Str ''left'')]]),
          (''width'', Num 400)]"
  have a: "is_object (Obj [] ?cfg)" by simp
  have b: "resolveMapping (Obj [] ?cfg) Undefined
      = Inr (Obj [] ?cfg, Str ''cartesian'', cartesianMapping)"
    by (simp add: engine_defs)
  have c: "truthy cartesianMapping" by (simp add: cartesianMapping_def)
  have d: "setComponentDefaults (Obj [] ?cfg) cartesianMapping = Inr ?o2"
    by (simp add: engine_defs)
  have e: "getprop cartesianMapping ''constructorParams'' = Inr (Arr [Str ''document''])"
    by (simp add: cartesianMapping_def)
  have f: "paramsOrEmpty (Arr [Str ''document'']) = Inr [Str ''document'']"
    by (simp add: paramsOrEmpty_def)
  have g: "paramLookups ?o2 [Str ''document''] = Inr [Str ''doc'']" by simp
  have h: "(if truthy Undefined then Inr Undefined
               else bind (getprop cartesianMapping ''constructor'')
                      (\<lambda>f. new_instance sample_world f
                         (filter (\<lambda>v. v \<noteq> Undefined) [Str ''doc''])))
              = Inr (Inst CartesianChart [Str ''doc'']
                  [(''legend'', Inst Legend [] [(''position'', Str ''right'')])])"
    by (simp add: cartesianMapping_def new_instance_def sample_world_def)
  have i: "priv_create (Suc (Suc 0)) sample_world (Obj [] ?cfg) Undefined Undefined
      = Some (Inr (?inst, ?o2))"
    by (simp add: engine_defs sample_world_def)
  from constructor_params [OF a b c d e f g h i] i show ?thesis
    by simp
qed

section \<open>Create: type inference and defaults\<close>





end
